theory Spec2Isabelle
  imports Complex_Main "HOL-Library.AList" "HOL-Library.Multiset"
begin

text \<open>
  The entity pipeline of \<open>src/ai-agent/services/intelligence-service.ts\<close>: two
  extractors, \<open>mergeEntities\<close>, \<open>classifyEntities\<close>, \<open>calculateEntityConfidence\<close> and
  \<open>calculateOverallConfidence\<close>, run by \<open>analyzeContent\<close>. The model comes first, the
  properties after it.
\<close>

section \<open>Data model (src/types/extraction.ts, src/types/intelligence.ts)\<close>

text \<open>
  Numbers are JavaScript doubles in the source; they are modelled as reals, so rounding
  and NaN are outside the model. Strings are ASCII character lists.
\<close>

datatype EntityType = business | product | location | contact | person | service

text \<open>The string each \<open>EntityType\<close> is at run time.\<close>

fun type_name :: "EntityType \<Rightarrow> string" where
  "type_name business = ''business''"
| "type_name product = ''product''"
| "type_name location = ''location''"
| "type_name contact = ''contact''"
| "type_name person = ''person''"
| "type_name service = ''service''"

text \<open>
  A JavaScript value as \<open>JSON.parse\<close> produces it, with \<open>undefined\<close> for a property
  that is absent. \<open>Obj kvs\<close> lists the own properties of an object; \<open>map_of kvs\<close> reads one.
\<close>

datatype jsval =
    Undefined
  | Null
  | Bool bool
  | Num real
  | Str string
  | Arr "jsval list"
  | Obj "(string \<times> jsval) list"

text \<open>\<open>Record<string, any>\<close>: an open mapping from property names to values.\<close>

type_synonym attrs = "string \<rightharpoonup> jsval"

text \<open>
  \<open>TextContext\<close>; the fields \<open>text\<close>, \<open>section\<close> and \<open>page\<close> carry a prefix. The text of
  a context and the \<open>rawText\<close> of an entity are declared strings; the code only carries
  them, so they hold whatever value the row they were read from had.
\<close>

record TextContext =
  ctx_text :: jsval
  ctx_section :: "string option"
  ctx_page :: "string option"
  importance :: real

text \<open>
  \<open>AnalyzedEntity\<close>. The field \<open>attributes\<close> has type \<open>'a\<close>: it is the mapping itself
  (\<open>attrs\<close>) where entities are handled as values, and the address of the mapping in a
  store where the code mutates an attributes object that several entity objects share.
\<close>

record 'a AnalyzedEntity =
  type :: EntityType
  name :: string
  attributes :: 'a
  rawText :: jsval
  confidence :: real
  contexts :: "TextContext list"

section \<open>String primitives\<close>

definition toLowerCase_char :: "char \<Rightarrow> char" where
  "toLowerCase_char c =
     (case map_of (zip ''ABCDEFGHIJKLMNOPQRSTUVWXYZ'' ''abcdefghijklmnopqrstuvwxyz'') c of
        Some l \<Rightarrow> l
      | None \<Rightarrow> c)"

definition toLowerCase :: "string \<Rightarrow> string" where
  "toLowerCase s = map toLowerCase_char s"

definition is_space :: "char \<Rightarrow> bool" where
  "is_space c = (c \<in> set [CHR '' '', CHR 0x09, CHR 0x0A, CHR 0x0B, CHR 0x0C, CHR 0x0D])"

definition trim :: "string \<Rightarrow> string" where
  "trim s = rev (dropWhile is_space (rev (dropWhile is_space s)))"

section \<open>Entity Fuser: \<open>mergeEntities\<close>\<close>

text \<open>The key \<open>`${entity.type}:${entity.name.toLowerCase().trim()}`\<close>.\<close>

definition entity_key :: "('a, 'b) AnalyzedEntity_scheme \<Rightarrow> string" where
  "entity_key e = type_name (type e) @ '':'' @ trim (toLowerCase (name e))"

text \<open>
  The branch taken when the key is already in the map: attributes are spread into a new
  object (the incoming value wins), contexts are concatenated, the confidence is
  \<open>Math.max\<close> of the two. Type, name and raw text stay those of the entity seen first.
\<close>

definition merge_into :: "attrs AnalyzedEntity \<Rightarrow> attrs AnalyzedEntity \<Rightarrow> attrs AnalyzedEntity" where
  "merge_into existingEntity entity =
     existingEntity\<lparr>
       attributes := attributes existingEntity ++ attributes entity,
       contexts := contexts existingEntity @ contexts entity,
       confidence := max (confidence existingEntity) (confidence entity)\<rparr>"

text \<open>
  \<open>entityMap\<close> is a JavaScript \<open>Map\<close>: it keeps insertion order, and writing to a key
  that is present keeps the key's position. \<open>AList.update\<close> does both. One iteration of
  the loop over \<open>allEntities\<close>:
\<close>

definition merge_step ::
  "(string \<times> attrs AnalyzedEntity) list \<Rightarrow> attrs AnalyzedEntity \<Rightarrow> (string \<times> attrs AnalyzedEntity) list" where
  "merge_step entityMap entity =
     (let key = entity_key entity in
      case map_of entityMap key of
        Some existingEntity \<Rightarrow> AList.update key (merge_into existingEntity entity) entityMap
      | None \<Rightarrow> AList.update key entity entityMap)"

definition mergeEntities :: "attrs AnalyzedEntity list \<Rightarrow> attrs AnalyzedEntity list \<Rightarrow> attrs AnalyzedEntity list" where
  "mergeEntities nlpEntities aiEntities =
     (let allEntities = nlpEntities @ aiEntities in
      map snd (foldl merge_step [] allEntities))"


text \<open>
  The invariant of \<open>entityMap\<close> used in the proofs: the keys are distinct, and every
  entity is stored under its own key.
\<close>

definition keyed :: "(string \<times> attrs AnalyzedEntity) list \<Rightarrow> bool" where
  "keyed m = (distinct (map fst m) \<and> (\<forall>p \<in> set m. entity_key (snd p) = fst p))"

section \<open>JavaScript values: truthiness and property reads\<close>

datatype error =
    TypeError
  | SyntaxError
  | NetworkError
  | NlpError
  | AIModelCallFailed
  | NotReady
  | ContentAnalysisFailed
  | NaNConfidence

text \<open>
  \<open>NaNConfidence\<close> is not a JavaScript exception. The source returns a response in which
  a confidence is NaN when a row carried a confidence that converts to no number; the
  reals have no NaN, and \<open>NaNConfidence\<close> stands for such a response.
\<close>

fun truthy :: "jsval \<Rightarrow> bool" where
  "truthy Undefined = False"
| "truthy Null = False"
| "truthy (Bool b) = b"
| "truthy (Num n) = (n \<noteq> 0)"
| "truthy (Str s) = (s \<noteq> [])"
| "truthy (Arr xs) = True"
| "truthy (Obj kvs) = True"

text \<open>\<open>a || b\<close>\<close>

definition js_or :: "jsval \<Rightarrow> jsval \<Rightarrow> jsval" where
  "js_or a b = (if truthy a then a else b)"

text \<open>
  \<open>v.p\<close> for the property names the code reads (none of them is a prototype property
  of a string, number, boolean or array). On \<open>null\<close> and \<open>undefined\<close> the read throws.
\<close>

fun read_prop :: "jsval \<Rightarrow> string \<Rightarrow> jsval" where
  "read_prop (Obj kvs) p = (case map_of kvs p of Some v \<Rightarrow> v | None \<Rightarrow> Undefined)"
| "read_prop v p = Undefined"

definition get_prop :: "jsval \<Rightarrow> string \<Rightarrow> error + jsval" where
  "get_prop v p = (if v = Undefined \<or> v = Null then Inl TypeError else Inr (read_prop v p))"

text \<open>Reading a key of an attributes object: \<open>undefined\<close> when the key is absent.\<close>

definition attr :: "attrs \<Rightarrow> string \<Rightarrow> jsval" where
  "attr a k = (case a k of Some v \<Rightarrow> v | None \<Rightarrow> Undefined)"

text \<open>
  \<open>response.match(/\{[\s\S]*\}/)\<close>: the match starts at the first opening brace and,
  the star being greedy, ends at the last closing brace after it.
\<close>

definition jsonMatch :: "string \<Rightarrow> string option" where
  "jsonMatch response =
     (case dropWhile (\<lambda>c. c \<noteq> CHR ''{'') response of
        [] \<Rightarrow> None
      | b # rest \<Rightarrow>
          if CHR ''}'' \<in> set rest
          then Some (b # rev (dropWhile (\<lambda>c. c \<noteq> CHR ''}'') (rev rest)))
          else None)"

section \<open>The service and its collaborators\<close>

text \<open>
  The object literal that each extractor builds for an entity. The rows of the recognizer
  and of the model are \<open>any\<close>, so every field but the type (which the code has compared
  with the type names) is a JavaScript value.
\<close>

record RawEntity =
  raw_type :: EntityType
  raw_name :: jsval
  raw_attributes :: jsval
  raw_rawText :: jsval
  raw_confidence :: jsval
  raw_contexts :: "(jsval \<times> real) list"

text \<open>
  The two prompts, by the data their text is built from:
  \<open>constructEntityExtractionPrompt\<close> writes \<open>content.substring(0, 15000)\<close> and the joined
  entity types; \<open>constructProductClassificationPrompt\<close> writes the name and the attributes
  of each product.
\<close>

datatype prompt =
    EntityExtractionPrompt string "EntityType list"
  | ProductClassificationPrompt "(string \<times> attrs) list"

text \<open>
  The service: its \<open>ready\<close> flag, and what it calls outside the repository:
  \<^item> \<open>nlpManager.process\<close>, giving the \<open>result\<close> object of node-nlp;
  \<^item> \<open>axios.post\<close> up to \<open>choices[0].message.content\<close>;
  \<^item> \<open>JSON.parse\<close>, with \<open>None\<close> for a SyntaxError;
  \<^item> the two readings of \<open>Date.now()\<close>;
  \<^item> JavaScript's conversion of a string, an array or an object to a number
    (\<open>Number_of\<close>, with \<open>None\<close> for NaN), and the number it computes for
    \<open>(n + v) / 2\<close> when \<open>v\<close> is a string, an array or an object (\<open>coerced_blend\<close>: the
    two are concatenated as strings and the result is converted).
\<close>

record IntelligenceService =
  ready :: bool
  nlpManager_process :: "string \<Rightarrow> error + jsval"
  axios_post :: "prompt \<Rightarrow> error + string"
  JSON_parse :: "string \<Rightarrow> jsval option"
  Date_now :: "int \<times> int"
  Number_of :: "jsval \<Rightarrow> real option"
  coerced_blend :: "real \<Rightarrow> jsval \<Rightarrow> real"

section \<open>Rule-Based Extractor\<close>

text \<open>The \<open>switch\<close> on \<open>entity.entity\<close>; \<open>None\<close> is its \<open>default\<close> branch.\<close>

definition nlp_type :: "jsval \<Rightarrow> EntityType option" where
  "nlp_type v =
     (if v = Str ''business'' then Some business
      else if v = Str ''product'' then Some product
      else if v = Str ''location'' then Some location
      else if v = Str ''contact'' then Some contact
      else if v = Str ''person'' then Some person
      else None)"

text \<open>
  The loop over the rows of the recognizer. Reading \<open>entity.entity\<close> of a \<open>null\<close> row
  throws; the fields of a row that are absent are \<open>undefined\<close>.
\<close>

fun convertNlpEntitiesToAnalyzedEntities :: "jsval list \<Rightarrow> error + RawEntity list" where
  "convertNlpEntitiesToAnalyzedEntities [] = Inr []"
| "convertNlpEntitiesToAnalyzedEntities (entity # nlpEntities) =
     (case get_prop entity ''entity'' of
        Inl err \<Rightarrow> Inl err
      | Inr ty \<Rightarrow>
          (case convertNlpEntitiesToAnalyzedEntities nlpEntities of
             Inl err \<Rightarrow> Inl err
           | Inr analyzedEntities \<Rightarrow>
               (case nlp_type ty of
                  None \<Rightarrow> Inr analyzedEntities
                | Some t \<Rightarrow>
                    Inr (\<lparr>raw_type = t,
                          raw_name = read_prop entity ''utterance'',
                          raw_attributes = Obj [(''category'', read_prop entity ''option'')],
                          raw_rawText = read_prop entity ''utterance'',
                          raw_confidence = read_prop entity ''accuracy'',
                          raw_contexts = [(read_prop entity ''utterance'', 1)]\<rparr>
                         # analyzedEntities))))"

text \<open>
  Every exception is caught and gives the empty list: one thrown by the recognizer, by
  reading \<open>result.entities\<close>, by iterating a value that is no array, or inside the loop.
  (A string can be iterated; its characters have no \<open>entity\<close> and are skipped.)
\<close>

definition extractEntitiesWithNLP :: "IntelligenceService \<Rightarrow> string \<Rightarrow> RawEntity list" where
  "extractEntitiesWithNLP svc content =
     (case nlpManager_process svc content of
        Inl err \<Rightarrow> []
      | Inr result \<Rightarrow>
          (case get_prop result ''entities'' of
             Inl err \<Rightarrow> []
           | Inr (Arr rows) \<Rightarrow>
               (case convertNlpEntitiesToAnalyzedEntities rows of
                  Inl err \<Rightarrow> []
                | Inr analyzedEntities \<Rightarrow> analyzedEntities)
           | Inr other \<Rightarrow> []))"

section \<open>Model-Based Extractor\<close>

definition callAIModel :: "IntelligenceService \<Rightarrow> prompt \<Rightarrow> error + string" where
  "callAIModel svc p =
     (case axios_post svc p of
        Inl err \<Rightarrow> Inl AIModelCallFailed
      | Inr message_content \<Rightarrow> Inr message_content)"

text \<open>\<open>entityTypes.includes(entity.type)\<close>, giving the type that matched.\<close>

definition includes_type :: "EntityType list \<Rightarrow> jsval \<Rightarrow> EntityType option" where
  "includes_type entityTypes v =
     (case v of Str s \<Rightarrow> find (\<lambda>t. type_name t = s) entityTypes | _ \<Rightarrow> None)"

definition to_raw :: "EntityType \<Rightarrow> jsval \<Rightarrow> RawEntity" where
  "to_raw t entity =
     \<lparr>raw_type = t,
      raw_name = read_prop entity ''name'',
      raw_attributes = js_or (read_prop entity ''attributes'') (Obj []),
      raw_rawText = read_prop entity ''name'',
      raw_confidence = js_or (read_prop entity ''confidence'') (Num 0.5),
      raw_contexts = [(js_or (read_prop entity ''context'') (read_prop entity ''name''), 0.8)]\<rparr>"

text \<open>
  \<open>.filter(...).map(...)\<close> over the rows. Reading \<open>entity.type\<close> of a \<open>null\<close> row throws,
  which the caller's \<open>catch\<close> turns into the empty list.
\<close>

fun filter_map_entities :: "EntityType list \<Rightarrow> jsval list \<Rightarrow> error + RawEntity list" where
  "filter_map_entities entityTypes [] = Inr []"
| "filter_map_entities entityTypes (entity # rows) =
     (case get_prop entity ''type'' of
        Inl err \<Rightarrow> Inl err
      | Inr ty \<Rightarrow>
          (case filter_map_entities entityTypes rows of
             Inl err \<Rightarrow> Inl err
           | Inr rest \<Rightarrow>
               (case includes_type entityTypes ty of
                  None \<Rightarrow> Inr rest
                | Some t \<Rightarrow> Inr (to_raw t entity # rest))))"

definition parseAIResponseToEntities ::
  "IntelligenceService \<Rightarrow> string \<Rightarrow> EntityType list \<Rightarrow> RawEntity list" where
  "parseAIResponseToEntities svc response entityTypes =
     (case jsonMatch response of
        None \<Rightarrow> []
      | Some jsonText \<Rightarrow>
          (case JSON_parse svc jsonText of
             None \<Rightarrow> []
           | Some jsonResponse \<Rightarrow>
               (case get_prop jsonResponse ''entities'' of
                  Inl err \<Rightarrow> []
                | Inr (Arr rows) \<Rightarrow>
                    (case filter_map_entities entityTypes rows of
                       Inl err \<Rightarrow> []
                     | Inr es \<Rightarrow> es)
                | Inr other \<Rightarrow> [])))"

definition extractEntitiesWithAI ::
  "IntelligenceService \<Rightarrow> string \<Rightarrow> EntityType list \<Rightarrow> RawEntity list" where
  "extractEntitiesWithAI svc content entityTypes =
     (case callAIModel svc (EntityExtractionPrompt (take 15000 content) entityTypes) of
        Inl err \<Rightarrow> []
      | Inr response \<Rightarrow> parseAIResponseToEntities svc response entityTypes)"

section \<open>Raw entities at the declared type\<close>

text \<open>
  Both extractors are declared to return \<open>AnalyzedEntity[]\<close>, and the rest of the
  pipeline reads their entities at that type. What it does with a field that holds a
  value of another type:
  \<^item> \<open>name\<close>: \<open>mergeEntities\<close> calls \<open>entity.name.toLowerCase()\<close> on every entity, which
    throws unless the name is a string;
  \<^item> \<open>confidence\<close>: \<open>Math.max\<close>, \<open>*=\<close> and \<open>Math.min\<close> convert their operand to a
    number, and \<open>Math.min\<close> is applied to every entity; so the response is the one the
    pipeline gives for the value converted to a number. (The blend of
    \<open>parseProductClassificationResponse\<close> reads it too, and leaves its result on a clone
    whose confidence nothing reads.)
  \<^item> \<open>attributes\<close>: it is spread, enumerated and read by property name, which see the
    own enumerable properties of the value (the indices of an array or a string, none
    of a number or a boolean); \<open>classifyEntities\<close> also writes to it, see
    \<open>unwritable_product\<close> below;
  \<^item> \<open>rawText\<close> and the text of a context are carried as they are.
\<close>

definition is_Str :: "jsval \<Rightarrow> bool" where
  "is_Str v = (case v of Str s \<Rightarrow> True | _ \<Rightarrow> False)"

text \<open>JavaScript's ToNumber; \<open>None\<close> is NaN.\<close>

definition js_ToNumber :: "IntelligenceService \<Rightarrow> jsval \<Rightarrow> real option" where
  "js_ToNumber svc v =
     (case v of
        Undefined \<Rightarrow> None
      | Null \<Rightarrow> Some 0
      | Bool b \<Rightarrow> Some (if b then 1 else 0)
      | Num x \<Rightarrow> Some x
      | _ \<Rightarrow> Number_of svc v)"

text \<open>The decimal numeral of an array index.\<close>

function decimal :: "nat \<Rightarrow> string" where
  "decimal n =
     (if n < 10 then [''0123456789'' ! n]
      else decimal (n div 10) @ [''0123456789'' ! (n mod 10)])"
  by pat_completeness auto
termination
  by (relation "measure id") auto

definition own_properties :: "jsval \<Rightarrow> attrs" where
  "own_properties v =
     (case v of
        Obj kvs \<Rightarrow> map_of kvs
      | Arr xs \<Rightarrow> map_of (zip (map decimal [0..<length xs]) xs)
      | Str s \<Rightarrow> map_of (zip (map decimal [0..<length s]) (map (\<lambda>c. Str [c]) s))
      | _ \<Rightarrow> Map.empty)"

definition as_context :: "jsval \<times> real \<Rightarrow> TextContext" where
  "as_context c =
     \<lparr>ctx_text = fst c, ctx_section = None, ctx_page = None, importance = snd c\<rparr>"

text \<open>\<open>None\<close> when the name is no string or the confidence converts to NaN.\<close>

definition asAnalyzedEntity :: "IntelligenceService \<Rightarrow> RawEntity \<Rightarrow> attrs AnalyzedEntity option" where
  "asAnalyzedEntity svc r =
     (case (raw_name r, js_ToNumber svc (raw_confidence r)) of
        (Str n, Some c) \<Rightarrow>
          Some \<lparr>type = raw_type r, name = n, attributes = own_properties (raw_attributes r),
                rawText = raw_rawText r, confidence = c,
                contexts = map as_context (raw_contexts r)\<rparr>
      | _ \<Rightarrow> None)"

section \<open>Product Classifier\<close>

text \<open>
  \<open>parseProductClassificationResponse\<close> clones each entity with \<open>{...entity}\<close>, a shallow
  copy: the clone is a new entity object whose \<open>attributes\<close> is the same object as the
  original's. Writing \<open>entity.attributes.category\<close> through the clone is therefore seen
  through the original, while writing \<open>entity.confidence\<close> is not. Attributes objects
  live in a store, and an entity holds the address of its attributes object.
\<close>

type_synonym store = "nat \<Rightarrow> attrs"

text \<open>\<open>obj.key = v\<close> for the attributes object at address \<open>a\<close>.\<close>

definition set_attr :: "store \<Rightarrow> nat \<Rightarrow> string \<Rightarrow> jsval \<Rightarrow> store" where
  "set_attr st a k v = st(a := (st a)(k \<mapsto> v))"

text \<open>
  The body of the loop over \<open>jsonResponse.classifications\<close>. The store is returned
  with the error too: what was written before an exception stays written. In
  \<open>(entity.confidence + classification.confidence) / 2\<close> a \<open>true\<close> counts as 1, and a
  string, an array or an object is concatenated to the number as a string
  (\<open>coerced_blend\<close>; where JavaScript gets NaN the model has no value of its own).
\<close>

definition apply_classification ::
  "IntelligenceService \<Rightarrow> (string \<times> nat AnalyzedEntity) list \<Rightarrow> store \<Rightarrow> jsval
     \<Rightarrow> (error + (string \<times> nat AnalyzedEntity) list) \<times> store" where
  "apply_classification svc entityMap st classification =
     (case get_prop classification ''name'' of
        Inl err \<Rightarrow> (Inl err, st)
      | Inr (Str n) \<Rightarrow>
          (let entityKey = toLowerCase n in
           case map_of entityMap entityKey of
             None \<Rightarrow> (Inr entityMap, st)
           | Some entity \<Rightarrow>
               (let a = attributes entity;
                    st1 = set_attr st a ''category'' (read_prop classification ''category'');
                    st2 = (if truthy (read_prop classification ''subcategory'')
                           then set_attr st1 a ''subcategory'' (read_prop classification ''subcategory'')
                           else st1);
                    st3 = (if truthy (read_prop classification ''hsCode'')
                           then set_attr st2 a ''hsCode'' (read_prop classification ''hsCode'')
                           else st2);
                    c = read_prop classification ''confidence''
                in if \<not> truthy c then (Inr entityMap, st3)
                   else (case c of
                           Num x \<Rightarrow>
                             (Inr (AList.update entityKey
                                    (entity\<lparr>confidence := (confidence entity + x) / 2\<rparr>) entityMap), st3)
                         | Bool b \<Rightarrow>
                             (Inr (AList.update entityKey
                                    (entity\<lparr>confidence := (confidence entity + 1) / 2\<rparr>) entityMap), st3)
                         | other \<Rightarrow>
                             (Inr (AList.update entityKey
                                    (entity\<lparr>confidence := coerced_blend svc (confidence entity) other\<rparr>)
                                    entityMap), st3))))
      | Inr other \<Rightarrow> (Inl TypeError, st))"

fun apply_classifications ::
  "IntelligenceService \<Rightarrow> (string \<times> nat AnalyzedEntity) list \<Rightarrow> store \<Rightarrow> jsval list
     \<Rightarrow> (error + (string \<times> nat AnalyzedEntity) list) \<times> store" where
  "apply_classifications svc entityMap st [] = (Inr entityMap, st)"
| "apply_classifications svc entityMap st (classification # rest) =
     (case apply_classification svc entityMap st classification of
        (Inl err, st') \<Rightarrow> (Inl err, st')
      | (Inr entityMap', st') \<Rightarrow> apply_classifications svc entityMap' st' rest)"

text \<open>\<open>entityMap.set(entity.name.toLowerCase(), {...entity})\<close> for each original entity.\<close>

definition clone_entities :: "nat AnalyzedEntity list \<Rightarrow> (string \<times> nat AnalyzedEntity) list" where
  "clone_entities originalEntities =
     foldl (\<lambda>entityMap entity. AList.update (toLowerCase (name entity)) entity entityMap)
       [] originalEntities"

text \<open>
  Every exception is caught and gives \<open>originalEntities\<close>: the result is always an
  \<open>Inr\<close>.
\<close>

definition parseProductClassificationResponse ::
  "IntelligenceService \<Rightarrow> string \<Rightarrow> nat AnalyzedEntity list \<Rightarrow> store
     \<Rightarrow> error + (nat AnalyzedEntity list \<times> store)" where
  "parseProductClassificationResponse svc response originalEntities st =
     (case jsonMatch response of
        None \<Rightarrow> Inr (originalEntities, st)
      | Some jsonText \<Rightarrow>
          (case JSON_parse svc jsonText of
             None \<Rightarrow> Inr (originalEntities, st)
           | Some jsonResponse \<Rightarrow>
               (case get_prop jsonResponse ''classifications'' of
                  Inl err \<Rightarrow> Inr (originalEntities, st)
                | Inr (Arr rows) \<Rightarrow>
                    (case apply_classifications svc (clone_entities originalEntities) st rows of
                       (Inl err, st') \<Rightarrow> Inr (originalEntities, st')
                     | (Inr entityMap, st') \<Rightarrow> Inr (map snd entityMap, st'))
                | Inr other \<Rightarrow> Inr (originalEntities, st))))"

definition classifyProductEntities ::
  "IntelligenceService \<Rightarrow> nat AnalyzedEntity list \<Rightarrow> store
     \<Rightarrow> error + (nat AnalyzedEntity list \<times> store)" where
  "classifyProductEntities svc productEntities st =
     (case callAIModel svc
             (ProductClassificationPrompt
               (map (\<lambda>entity. (name entity, st (attributes entity))) productEntities)) of
        Inl err \<Rightarrow> Inr (productEntities, st)
      | Inr response \<Rightarrow> parseProductClassificationResponse svc response productEntities st)"

text \<open>
  The body of the loop of \<open>classifyEntities\<close>: \<open>category\<close> and \<open>hsCode\<close> are copied from
  the classified product of the same name, one assignment after the other; nothing else is.
\<close>

definition copy_classification :: "nat AnalyzedEntity list \<Rightarrow> store \<Rightarrow> nat AnalyzedEntity \<Rightarrow> store" where
  "copy_classification classifiedProducts st entity =
     (if type entity = product
      then (case find (\<lambda>cp. name cp = name entity) classifiedProducts of
              Some classification \<Rightarrow>
                (let st1 = set_attr st (attributes entity) ''category''
                             (attr (st (attributes classification)) ''category'')
                 in set_attr st1 (attributes entity) ''hsCode''
                      (attr (st1 (attributes classification)) ''hsCode''))
            | None \<Rightarrow> st)
      else st)"

definition classifyEntities ::
  "IntelligenceService \<Rightarrow> nat AnalyzedEntity list \<Rightarrow> store
     \<Rightarrow> error + (nat AnalyzedEntity list \<times> store)" where
  "classifyEntities svc entities st =
     (let classifiedEntities = entities;
          productEntities = filter (\<lambda>entity. type entity = product) classifiedEntities
      in if length productEntities > 0
         then (case classifyProductEntities svc productEntities st of
                 Inl err \<Rightarrow> Inl err
               | Inr (classifiedProducts, st') \<Rightarrow>
                   Inr (classifiedEntities,
                        foldl (copy_classification classifiedProducts) st' classifiedEntities))
         else Inr (classifiedEntities, st))"

text \<open>
  Between the stages that handle entities as values and the classifier: \<open>alloc\<close> gives
  each entity an attributes object of its own (as the entities that leave \<open>mergeEntities\<close>
  have in the pipeline), \<open>load\<close> reads an entity back.
\<close>

fun alloc :: "nat \<Rightarrow> attrs AnalyzedEntity list \<Rightarrow> store \<Rightarrow> nat AnalyzedEntity list \<times> store" where
  "alloc a [] st = ([], st)"
| "alloc a (e # es) st =
     (case alloc (Suc a) es (st(a := attributes e)) of
        (hs, st') \<Rightarrow>
          (\<lparr>type = type e, name = name e, attributes = a, rawText = rawText e,
            confidence = confidence e, contexts = contexts e\<rparr> # hs, st'))"

definition load :: "store \<Rightarrow> nat AnalyzedEntity \<Rightarrow> attrs AnalyzedEntity" where
  "load st h =
     \<lparr>type = type h, name = name h, attributes = st (attributes h), rawText = rawText h,
      confidence = confidence h, contexts = contexts h\<rparr>"

text \<open>\<open>classifyEntities\<close> as \<open>analyzeContent\<close> runs it, from fused entities to classified ones.\<close>

definition classify_stage ::
  "IntelligenceService \<Rightarrow> attrs AnalyzedEntity list \<Rightarrow> error + attrs AnalyzedEntity list" where
  "classify_stage svc mergedEntities =
     (case alloc 0 mergedEntities (\<lambda>a. Map.empty) of
        (hs, st) \<Rightarrow>
          (case classifyEntities svc hs st of
             Inl err \<Rightarrow> Inl err
           | Inr (hs', st') \<Rightarrow> Inr (map (load st') hs')))"

section \<open>Confidence Scorer\<close>

definition adjust_confidence :: "attrs AnalyzedEntity \<Rightarrow> attrs AnalyzedEntity" where
  "adjust_confidence entity =
     (let adjustedConfidence =
            (case type entity of
               business \<Rightarrow> confidence entity * (1 + min (real (length (name entity)) / 50) 0.3)
             | product \<Rightarrow>
                 if truthy (attr (attributes entity) ''category'')
                    \<or> truthy (attr (attributes entity) ''hsCode'')
                 then confidence entity * 1.2 else confidence entity
             | location \<Rightarrow>
                 if truthy (attr (attributes entity) ''countryCode'')
                    \<or> truthy (attr (attributes entity) ''postalCode'')
                 then confidence entity * 1.1 else confidence entity
             | _ \<Rightarrow> confidence entity)
      in entity\<lparr>confidence := min adjustedConfidence 1.0\<rparr>)"

definition calculateEntityConfidence :: "attrs AnalyzedEntity list \<Rightarrow> attrs AnalyzedEntity list" where
  "calculateEntityConfidence entities = map adjust_confidence entities"

fun typeWeights :: "EntityType \<Rightarrow> real" where
  "typeWeights business = 1.0"
| "typeWeights product = 0.8"
| "typeWeights location = 0.7"
| "typeWeights contact = 0.6"
| "typeWeights person = 0.5"
| "typeWeights service = 0.8"

text \<open>\<open>typeWeights[entity.type] || 0.5\<close>\<close>

definition weight_of :: "EntityType \<Rightarrow> real" where
  "weight_of t = (if typeWeights t \<noteq> 0 then typeWeights t else 0.5)"

text \<open>The loop, with the pair \<open>(weightedSum, totalWeight)\<close> as its state.\<close>

definition weigh :: "real \<times> real \<Rightarrow> attrs AnalyzedEntity \<Rightarrow> real \<times> real" where
  "weigh acc entity =
     (case acc of (weightedSum, totalWeight) \<Rightarrow>
        (let weight = weight_of (type entity)
         in (weightedSum + confidence entity * weight, totalWeight + weight)))"

definition calculateOverallConfidence :: "attrs AnalyzedEntity list \<Rightarrow> real" where
  "calculateOverallConfidence entities =
     (if length entities = 0 then 0
      else (case foldl weigh (0, 0) entities of
              (weightedSum, totalWeight) \<Rightarrow>
                if totalWeight > 0 then weightedSum / totalWeight else 0))"

section \<open>\<open>analyzeContent\<close>\<close>

datatype ExtractionSource = website | instagram | facebook | document | pdf | linkedin

record ContentAnalysisOptions =
  confidenceThreshold :: "real option"
  maxEntities :: "real option"
  languageModel :: "string option"
  extractStructured :: "bool option"

record ContentAnalysisRequest =
  content :: string
  sourceUrl :: string
  sourceType :: ExtractionSource
  entityTypes :: "EntityType list"
  options :: "ContentAnalysisOptions option"

text \<open>\<open>ContentAnalysisResponse\<close>; \<open>entities\<close> and \<open>confidence\<close> carry a prefix.\<close>

record ContentAnalysisResponse =
  resp_entities :: "attrs AnalyzedEntity list"
  summary :: "string option"
  resp_confidence :: real
  processingTime :: int


text \<open>The key of a raw entity whose name is a string.\<close>

definition raw_key :: "RawEntity \<Rightarrow> string" where
  "raw_key r =
     type_name (raw_type r) @ '':''
       @ (case raw_name r of Str n \<Rightarrow> trim (toLowerCase n) | _ \<Rightarrow> [])"

definition is_primitive :: "jsval \<Rightarrow> bool" where
  "is_primitive v = (case v of Obj kvs \<Rightarrow> False | Arr xs \<Rightarrow> False | _ \<Rightarrow> True)"

text \<open>
  \<open>classifyEntities\<close> assigns \<open>entity.attributes.category\<close> for every product entity (it
  always finds a classified product of the same name: the entity's clone, or the entity
  itself when the classifier failed). The code is a class body, so strict: the
  assignment throws when \<open>attributes\<close> is a string, a number or a boolean. A fused entity
  has such an \<open>attributes\<close> exactly when it is the only entity of its key and its row
  had one (\<open>mergeEntities\<close> gives a merged entity a fresh object).
\<close>

definition unwritable_product :: "RawEntity list \<Rightarrow> bool" where
  "unwritable_product allEntities =
     (\<exists>r \<in> set allEntities.
        raw_type r = product \<and> is_primitive (raw_attributes r)
        \<and> length (filter (\<lambda>r'. raw_key r' = raw_key r) allEntities) = 1)"

text \<open>
  The entities of the two extractors as the pipeline reads them. A name that is not a
  string makes \<open>entity.name.toLowerCase()\<close> throw in \<open>mergeEntities\<close>, and an unwritable
  product makes \<open>classifyEntities\<close> throw, both inside the \<open>try\<close> of \<open>analyzeContent\<close>,
  which rethrows. Otherwise a confidence that converts to NaN gives \<open>NaNConfidence\<close>.
\<close>

definition typed_entities ::
  "IntelligenceService \<Rightarrow> RawEntity list \<Rightarrow> RawEntity list
     \<Rightarrow> error + (attrs AnalyzedEntity list \<times> attrs AnalyzedEntity list)" where
  "typed_entities svc nlpEntities aiEntities =
     (let allEntities = nlpEntities @ aiEntities
      in if \<exists>r \<in> set allEntities. \<not> is_Str (raw_name r) then Inl ContentAnalysisFailed
         else if unwritable_product allEntities then Inl ContentAnalysisFailed
         else (case (those (map (asAnalyzedEntity svc) nlpEntities),
                     those (map (asAnalyzedEntity svc) aiEntities)) of
                 (Some nlp, Some ai) \<Rightarrow> Inr (nlp, ai)
               | _ \<Rightarrow> Inl NaNConfidence))"

definition analyzeContent ::
  "IntelligenceService \<Rightarrow> ContentAnalysisRequest \<Rightarrow> error + ContentAnalysisResponse" where
  "analyzeContent svc request =
     (if \<not> ready svc then Inl NotReady
      else
        (let startTime = fst (Date_now svc);
             rawNlpEntities = extractEntitiesWithNLP svc (content request);
             rawAiEntities = extractEntitiesWithAI svc (content request) (entityTypes request)
         in case typed_entities svc rawNlpEntities rawAiEntities of
              Inl err \<Rightarrow> Inl err
            | Inr (nlpEntities, aiEntities) \<Rightarrow>
                (let mergedEntities = mergeEntities nlpEntities aiEntities
                 in case classify_stage svc mergedEntities of
                      Inl err \<Rightarrow> Inl err
                    | Inr classifiedEntities \<Rightarrow>
                        (let entitiesWithConfidence = calculateEntityConfidence classifiedEntities;
                             overallConfidence = calculateOverallConfidence entitiesWithConfidence;
                             processingTime = snd (Date_now svc) - startTime
                         in Inr \<lparr>resp_entities = entitiesWithConfidence,
                                 summary = None,
                                 resp_confidence = overallConfidence,
                                 processingTime = processingTime\<rparr>))))"

section \<open>Inputs used in the examples\<close>

text \<open>Scenario A: the same business, as each extractor reports it.\<close>

definition acme_rule_based :: "attrs AnalyzedEntity" where
  "acme_rule_based =
     \<lparr>type = business, name = ''Acme Exports'',
      attributes = [''category'' \<mapsto> Str ''name''],
      rawText = Str ''Acme Exports'', confidence = 0.6,
      contexts = [\<lparr>ctx_text = Str ''Acme Exports'', ctx_section = None, ctx_page = None,
                   importance = 1\<rparr>]\<rparr>"

definition acme_model_based :: "attrs AnalyzedEntity" where
  "acme_model_based =
     \<lparr>type = business, name = ''ACME EXPORTS'',
      attributes = [''category'' \<mapsto> Str ''exporter''],
      rawText = Str ''ACME EXPORTS'', confidence = 0.9,
      contexts = [\<lparr>ctx_text = Str ''ACME EXPORTS is an exporter'', ctx_section = None,
                   ctx_page = None, importance = 0.8\<rparr>]\<rparr>"


text \<open>A model response that reports a confidence of 0, and what \<open>JSON.parse\<close> makes of it.\<close>

definition zero_confidence_text :: string where
  \<open>zero_confidence_text =
     ''Result: {"entities":[{"type":"business","name":"Acme Exports","confidence":0}]}''\<close>

definition zero_confidence_json :: jsval where
  "zero_confidence_json =
     Obj [(''entities'',
           Arr [Obj [(''type'', Str ''business''), (''name'', Str ''Acme Exports''),
                     (''confidence'', Num 0)]])]"

text \<open>A classification response for one product.\<close>

definition laptop_classification_text :: string where
  \<open>laptop_classification_text =
     ''{"classifications":[{"name":"Laptop","category":"Electronics","subcategory":"Computers","hsCode":"847130","confidence":1}]}''\<close>

definition laptop_classification_json :: jsval where
  "laptop_classification_json =
     Obj [(''classifications'',
           Arr [Obj [(''name'', Str ''Laptop''), (''category'', Str ''Electronics''),
                     (''subcategory'', Str ''Computers''), (''hsCode'', Str ''847130''),
                     (''confidence'', Num 1)]])]"

definition laptop_entity :: "attrs AnalyzedEntity" where
  "laptop_entity =
     \<lparr>type = product, name = ''Laptop'', attributes = Map.empty, rawText = Str ''Laptop'',
      confidence = 0.6,
      contexts = [\<lparr>ctx_text = Str ''Laptop'', ctx_section = None, ctx_page = None,
                   importance = 0.8\<rparr>]\<rparr>"

text \<open>\<open>JSON.parse\<close> on the texts above; any other text is taken as a SyntaxError.\<close>

definition sample_JSON_parse :: "string \<Rightarrow> jsval option" where
  "sample_JSON_parse jsonText =
     (if jsonText = drop 8 zero_confidence_text then Some zero_confidence_json
      else if jsonText = laptop_classification_text then Some laptop_classification_json
      else None)"

text \<open>
  The examples convert no string, array or object to a number; their services take
  every such conversion as NaN.
\<close>

definition sample_Number_of :: "jsval \<Rightarrow> real option" where
  "sample_Number_of v = None"

definition sample_coerced_blend :: "real \<Rightarrow> jsval \<Rightarrow> real" where
  "sample_coerced_blend n v = n"

text \<open>
  A service whose recognizer reports the product ``laptop'' in a row with an
  \<open>utterance\<close>, whose model answers the extraction prompt with prose and no JSON, and
  whose classification call fails.
\<close>

definition rule_based_only_service :: IntelligenceService where
  "rule_based_only_service =
     \<lparr>ready = True,
      nlpManager_process = (\<lambda>txt.
        Inr (Obj [(''entities'',
                   Arr [Obj [(''entity'', Str ''product''), (''option'', Str ''type''),
                             (''utterance'', Str ''laptop''), (''accuracy'', Num 0.5)]])])),
      axios_post = (\<lambda>p. case p of
          EntityExtractionPrompt txt types \<Rightarrow> Inr ''I could not find any entity.''
        | ProductClassificationPrompt products \<Rightarrow> Inl NetworkError),
      JSON_parse = sample_JSON_parse,
      Date_now = (0, 5),
      Number_of = sample_Number_of,
      coerced_blend = sample_coerced_blend\<rparr>"

definition business_only_request :: ContentAnalysisRequest where
  "business_only_request =
     \<lparr>content = ''We sell a premium laptop'', sourceUrl = ''https://example.com'',
      sourceType = website, entityTypes = [business], options = None\<rparr>"

text \<open>A service whose model answers both prompts with the texts above.\<close>

definition model_service :: IntelligenceService where
  "model_service =
     \<lparr>ready = True,
      nlpManager_process = (\<lambda>txt. Inr (Obj [(''entities'', Arr [])])),
      axios_post = (\<lambda>p. case p of
          EntityExtractionPrompt txt types \<Rightarrow> Inr zero_confidence_text
        | ProductClassificationPrompt products \<Rightarrow> Inr laptop_classification_text),
      JSON_parse = sample_JSON_parse,
      Date_now = (0, 5),
      Number_of = sample_Number_of,
      coerced_blend = sample_coerced_blend\<rparr>"

text \<open>
  A request for business entities whose content has none of the recognizer's terms, and
  a service whose recognizer reports nothing for it and whose model reports one business
  with a confidence of -0.5.
\<close>

definition acme_request :: ContentAnalysisRequest where
  "acme_request =
     \<lparr>content = ''Acme trades in tea'', sourceUrl = ''https://example.com'',
      sourceType = website, entityTypes = [business], options = None\<rparr>"

definition negative_score_text :: string where
  \<open>negative_score_text =
     ''{"entities":[{"type":"business","name":"Acme","confidence":-0.5}]}''\<close>

definition negative_score_json :: jsval where
  "negative_score_json =
     Obj [(''entities'',
           Arr [Obj [(''type'', Str ''business''), (''name'', Str ''Acme''),
                     (''confidence'', Num (-0.5))]])]"

definition negative_score_service :: IntelligenceService where
  "negative_score_service =
     \<lparr>ready = True,
      nlpManager_process = (\<lambda>txt. Inr (Obj [(''entities'', Arr [])])),
      axios_post = (\<lambda>p. case p of
          EntityExtractionPrompt txt types \<Rightarrow> Inr negative_score_text
        | ProductClassificationPrompt products \<Rightarrow> Inl NetworkError),
      JSON_parse = (\<lambda>jsonText.
        if jsonText = negative_score_text then Some negative_score_json else None),
      Date_now = (0, 5),
      Number_of = sample_Number_of,
      coerced_blend = sample_coerced_blend\<rparr>"

text \<open>The same, with a model that reports one business and leaves out its name.\<close>

definition nameless_row_text :: string where
  \<open>nameless_row_text = ''{"entities":[{"type":"business","confidence":0.9}]}''\<close>

definition nameless_row_json :: jsval where
  "nameless_row_json =
     Obj [(''entities'', Arr [Obj [(''type'', Str ''business''), (''confidence'', Num 0.9)]])]"

definition nameless_row_service :: IntelligenceService where
  "nameless_row_service =
     \<lparr>ready = True,
      nlpManager_process = (\<lambda>txt. Inr (Obj [(''entities'', Arr [])])),
      axios_post = (\<lambda>p. case p of
          EntityExtractionPrompt txt types \<Rightarrow> Inr nameless_row_text
        | ProductClassificationPrompt products \<Rightarrow> Inl NetworkError),
      JSON_parse = (\<lambda>jsonText.
        if jsonText = nameless_row_text then Some nameless_row_json else None),
      Date_now = (0, 5),
      Number_of = sample_Number_of,
      coerced_blend = sample_coerced_blend\<rparr>"

text \<open>
  A service whose recognizer reports ``laptop'' in a row of the shape node-nlp gives
  (\<open>sourceText\<close> and \<open>utteranceText\<close>, no \<open>utterance\<close>), and whose model answers the
  extraction prompt with prose and no JSON.
\<close>

definition recognizer_row_service :: IntelligenceService where
  "recognizer_row_service =
     \<lparr>ready = True,
      nlpManager_process = (\<lambda>txt.
        Inr (Obj [(''entities'',
                   Arr [Obj [(''start'', Num 18), (''end'', Num 23), (''len'', Num 6),
                             (''accuracy'', Num 1), (''sourceText'', Str ''laptop''),
                             (''utteranceText'', Str ''laptop''), (''entity'', Str ''product''),
                             (''option'', Str ''type'')]])])),
      axios_post = (\<lambda>p. case p of
          EntityExtractionPrompt txt types \<Rightarrow> Inr ''I could not find any entity.''
        | ProductClassificationPrompt products \<Rightarrow> Inl NetworkError),
      JSON_parse = sample_JSON_parse,
      Date_now = (0, 5),
      Number_of = sample_Number_of,
      coerced_blend = sample_coerced_blend\<rparr>"

section \<open>Properties of the Entity Fuser\<close>

subsection \<open>The map built by the loop\<close>

text \<open>
  The invariant of \<open>entityMap\<close>: its keys are distinct, and every entry is stored under
  the key of its entity.
\<close>

lemma entity_key_merge_into: "entity_key (merge_into a b) = entity_key a"
  by (simp add: entity_key_def merge_into_def)

lemma map_of_merge_step:
  "map_of (merge_step m e) =
     (map_of m)(entity_key e \<mapsto>
        (case map_of m (entity_key e) of Some ex \<Rightarrow> merge_into ex e | None \<Rightarrow> e))"
  by (simp add: merge_step_def Let_def update_conv' split: option.splits)

lemma keyed_merge_step: "keyed m \<Longrightarrow> keyed (merge_step m e)"
proof -
  assume k: "keyed m"
  let ?k = "entity_key e"
  show ?thesis
  proof (cases "map_of m ?k")
    case None
    have "set (AList.update ?k e m) \<subseteq> insert (?k, e) (set m)"
      by (induction m) auto
    with k None show ?thesis
      by (auto simp: keyed_def merge_step_def distinct_update)
  next
    case (Some ex)
    then have "(?k, ex) \<in> set m" by (rule map_of_SomeD)
    with k have kex: "entity_key ex = ?k" by (auto simp: keyed_def)
    have "set (AList.update ?k (merge_into ex e) m) \<subseteq> insert (?k, merge_into ex e) (set m)"
      by (induction m) auto
    with k Some kex show ?thesis
      by (auto simp: keyed_def merge_step_def distinct_update entity_key_merge_into)
  qed
qed

lemma keyed_Nil: "keyed []"
  by (simp add: keyed_def)

lemma keyed_foldl: "keyed m \<Longrightarrow> keyed (foldl merge_step m es)"
  by (induction es arbitrary: m) (simp_all add: keyed_merge_step)

lemma keys_merge_step: "fst ` set (merge_step m e) = insert (entity_key e) (fst ` set m)"
  by (simp add: merge_step_def Let_def dom_update split: option.splits)

lemma keys_foldl: "fst ` set (foldl merge_step m es) = fst ` set m \<union> entity_key ` set es"
  by (induction es arbitrary: m) (auto simp: keys_merge_step)

text \<open>
  What the loop leaves under a key: the entities of that key, folded from the left with
  \<open>merge_into\<close>, starting from the one seen first.
\<close>

lemma map_of_foldl:
  "map_of (foldl merge_step m es) k =
     (case map_of m k of
        Some ex \<Rightarrow> Some (foldl merge_into ex (filter (\<lambda>e. entity_key e = k) es))
      | None \<Rightarrow> (case filter (\<lambda>e. entity_key e = k) es of
                   [] \<Rightarrow> None
                 | e # rest \<Rightarrow> Some (foldl merge_into e rest)))"
proof (induction es arbitrary: m)
  case Nil
  show ?case by (simp split: option.splits)
next
  case (Cons a es)
  show ?case
    by (simp add: Cons.IH map_of_merge_step split: option.splits)
qed

lemma find_keyed: "keyed m \<Longrightarrow> find (\<lambda>e. entity_key e = k) (map snd m) = map_of m k"
proof (induction m)
  case Nil
  show ?case by simp
next
  case (Cons p m)
  then have km: "keyed m" and kp: "entity_key (snd p) = fst p"
    by (auto simp: keyed_def)
  show ?case
  proof (cases "fst p = k")
    case True
    with kp show ?thesis by (cases p) auto
  next
    case False
    with kp Cons.IH [OF km] show ?thesis by (cases p) auto
  qed
qed

lemma keyed_distinct: "keyed m \<Longrightarrow> distinct (map entity_key (map snd m))"
proof -
  assume k: "keyed m"
  then have "map entity_key (map snd m) = map fst m"
    by (auto simp: keyed_def)
  with k show ?thesis by (simp only: keyed_def)
qed

lemma find_distinct_key:
  "e \<in> set es \<Longrightarrow> distinct (map entity_key es)
     \<Longrightarrow> find (\<lambda>x. entity_key x = entity_key e) es = Some e"
  by (induction es) auto

subsection \<open>The fused list\<close>

lemma mergeEntities_find:
  "find (\<lambda>e. entity_key e = k) (mergeEntities A B) =
     (case filter (\<lambda>e. entity_key e = k) (A @ B) of
        [] \<Rightarrow> None
      | e # rest \<Rightarrow> Some (foldl merge_into e rest))"
proof -
  have "keyed (foldl merge_step [] (A @ B))"
    by (rule keyed_foldl [OF keyed_Nil])
  then have "find (\<lambda>e. entity_key e = k) (mergeEntities A B)
      = map_of (foldl merge_step [] (A @ B)) k"
    unfolding mergeEntities_def Let_def by (rule find_keyed)
  then show ?thesis
    by (simp only: map_of_foldl) simp
qed

lemma mergeEntities_distinct: "distinct (map entity_key (mergeEntities A B))"
  unfolding mergeEntities_def Let_def
  by (rule keyed_distinct [OF keyed_foldl [OF keyed_Nil]])

lemma mergeEntities_key_list:
  "map entity_key (mergeEntities A B) = map fst (foldl merge_step [] (A @ B))"
proof -
  have "keyed (foldl merge_step [] (A @ B))" by (rule keyed_foldl [OF keyed_Nil])
  then show ?thesis
    unfolding mergeEntities_def Let_def by (auto simp: keyed_def)
qed

lemma mergeEntities_keys: "entity_key ` set (mergeEntities A B) = entity_key ` set (A @ B)"
proof -
  have "set (map entity_key (mergeEntities A B)) = set (map fst (foldl merge_step [] (A @ B)))"
    by (simp only: mergeEntities_key_list)
  then have "entity_key ` set (mergeEntities A B) = fst ` set (foldl merge_step [] (A @ B))"
    by (simp only: set_map)
  also have "\<dots> = entity_key ` set (A @ B)"
    by (auto simp: keys_foldl)
  finally show ?thesis .
qed

lemma mergeEntities_member:
  assumes "e \<in> set (mergeEntities A B)"
  shows "\<exists>e0 rest. filter (\<lambda>x. entity_key x = entity_key e) (A @ B) = e0 # rest
           \<and> e = foldl merge_into e0 rest"
proof -
  have "find (\<lambda>x. entity_key x = entity_key e) (mergeEntities A B) = Some e"
    using assms mergeEntities_distinct [of A B] by (rule find_distinct_key)
  then show ?thesis
    by (simp add: mergeEntities_find split: list.splits)
qed

subsection \<open>The fields of a fused entity\<close>

lemma confidence_foldl_merge_into:
  "confidence (foldl merge_into e rest) = Max (confidence ` set (e # rest))"
proof (induction rest arbitrary: e)
  case Nil
  show ?case by simp
next
  case (Cons a rest)
  have "confidence (foldl merge_into (merge_into e a) rest)
      = Max (confidence ` set (merge_into e a # rest))"
    by (rule Cons.IH)
  also have "\<dots> = Max (insert (max (confidence e) (confidence a)) (confidence ` set rest))"
    by (simp add: merge_into_def)
  also have "\<dots> = Max (confidence ` set (e # a # rest))"
  proof (cases "rest = []")
    case True
    then show ?thesis by (simp add: max.commute)
  next
    case False
    then show ?thesis by (simp add: max.assoc max.commute max.left_commute)
  qed
  finally show ?case by simp
qed






lemma mergeEntities_confidence:
  assumes "e \<in> set (mergeEntities A B)"
  shows "confidence e = Max (confidence ` {x \<in> set (A @ B). entity_key x = entity_key e})"
proof -
  obtain e0 rest where
    f: "filter (\<lambda>x. entity_key x = entity_key e) (A @ B) = e0 # rest"
    and e: "e = foldl merge_into e0 rest"
    using mergeEntities_member [OF assms] by blast
  have "confidence e = Max (confidence ` set (e0 # rest))"
    unfolding e by (rule confidence_foldl_merge_into)
  also have "set (e0 # rest) = {x \<in> set (A @ B). entity_key x = entity_key e}"
    unfolding f [symmetric] by auto
  finally show ?thesis .
qed












lemma keys_merge_step_present:
  "entity_key e \<in> fst ` set m \<Longrightarrow> map fst (merge_step m e) = map fst m"
  by (simp add: merge_step_def Let_def update_keys split: option.splits)

lemma keys_foldl_present:
  "entity_key ` set es \<subseteq> fst ` set m \<Longrightarrow> map fst (foldl merge_step m es) = map fst m"
proof (induction es arbitrary: m)
  case Nil
  show ?case by simp
next
  case (Cons a es)
  have 1: "map fst (merge_step m a) = map fst m"
    using Cons.prems by (simp add: keys_merge_step_present)
  then have "fst ` set (merge_step m a) = fst ` set m"
    by (metis set_map)
  with Cons.prems have "entity_key ` set es \<subseteq> fst ` set (merge_step m a)" by simp
  from Cons.IH [OF this] 1 show ?case by simp
qed

lemmas sample_eval =
  mergeEntities_def merge_step_def merge_into_def entity_key_def trim_def toLowerCase_def
  toLowerCase_char_def is_space_def

subsection \<open>Claims about \<open>mergeEntities\<close>\<close>






text \<open>
  C5. Fusing a list with itself gives the keys of fusing the list alone (in the same
  order), which are the keys of the list, and under each key the greatest confidence
  that key has in the list, which is the confidence it has when the list is fused alone.
\<close>

theorem mergeEntities_self:
  "map entity_key (mergeEntities L L) = map entity_key (mergeEntities L [])
   \<and> entity_key ` set (mergeEntities L L) = entity_key ` set L
   \<and> (\<forall>e \<in> set (mergeEntities L L).
         confidence e = Max (confidence ` {x \<in> set L. entity_key x = entity_key e}))
   \<and> (\<forall>x \<in> set (mergeEntities L L). \<forall>y \<in> set (mergeEntities L []).
         entity_key x = entity_key y \<longrightarrow> confidence x = confidence y)"
proof (intro conjI ballI impI)
  have "entity_key ` set L \<subseteq> fst ` set (foldl merge_step [] L)"
    by (simp add: keys_foldl)
  then show "map entity_key (mergeEntities L L) = map entity_key (mergeEntities L [])"
    by (simp add: mergeEntities_key_list keys_foldl_present)
next
  show "entity_key ` set (mergeEntities L L) = entity_key ` set L"
    by (simp add: mergeEntities_keys)
next
  fix e assume e: "e \<in> set (mergeEntities L L)"
  show "confidence e = Max (confidence ` {x \<in> set L. entity_key x = entity_key e})"
    using mergeEntities_confidence [OF e] by simp
next
  fix x y
  assume x: "x \<in> set (mergeEntities L L)" and y: "y \<in> set (mergeEntities L [])"
    and k: "entity_key x = entity_key y"
  show "confidence x = confidence y"
    using mergeEntities_confidence [OF x] mergeEntities_confidence [OF y] k by simp
qed

theorem mergeEntities_self_witness:
  "hd (mergeEntities [acme_rule_based, acme_model_based] [acme_rule_based, acme_model_based])
     \<in> set (mergeEntities [acme_rule_based, acme_model_based] [acme_rule_based, acme_model_based])
   \<and> hd (mergeEntities [acme_rule_based, acme_model_based] [])
     \<in> set (mergeEntities [acme_rule_based, acme_model_based] [])
   \<and> map entity_key
       (mergeEntities [acme_rule_based, acme_model_based] [acme_rule_based, acme_model_based])
     = map entity_key (mergeEntities [acme_rule_based, acme_model_based] [])
   \<and> confidence
       (hd (mergeEntities [acme_rule_based, acme_model_based] [acme_rule_based, acme_model_based]))
     = confidence (hd (mergeEntities [acme_rule_based, acme_model_based] []))"
proof -
  let ?L = "[acme_rule_based, acme_model_based]"
  have x: "hd (mergeEntities ?L ?L) \<in> set (mergeEntities ?L ?L)"
    by (simp add: sample_eval acme_rule_based_def acme_model_based_def)
  have y: "hd (mergeEntities ?L []) \<in> set (mergeEntities ?L [])"
    by (simp add: sample_eval acme_rule_based_def acme_model_based_def)
  have k: "entity_key (hd (mergeEntities ?L ?L)) = entity_key (hd (mergeEntities ?L []))"
    by (simp add: sample_eval acme_rule_based_def acme_model_based_def)
  from mergeEntities_self [of ?L] x y k
  show ?thesis by blast
qed

section \<open>Properties of the Confidence Scorer\<close>

lemma adjust_confidence_le_1: "confidence (adjust_confidence e) \<le> 1"
  by (simp add: adjust_confidence_def Let_def)

lemma adjust_confidence_ge:
  assumes "0 \<le> confidence e" "confidence e \<le> 1"
  shows "confidence e \<le> confidence (adjust_confidence e)"
proof -
  have b: "0 \<le> min (real (length (name e)) / 50) 0.3" by simp
  have "confidence e * 1 \<le> confidence e * (1 + min (real (length (name e)) / 50) 0.3)"
    using assms(1) b by (intro mult_left_mono) simp_all
  moreover have "confidence e \<le> confidence e * 1.2" "confidence e \<le> confidence e * 1.1"
    using assms(1) by simp_all
  ultimately show ?thesis
    using assms(2) by (cases "type e") (simp_all add: adjust_confidence_def Let_def)
qed

text \<open>
  C6. When every confidence of the input is in [0,1], \<open>calculateEntityConfidence\<close>
  returns, position by position, confidences that are at most 1, and for a product
  entity that has a \<open>category\<close> or an \<open>hsCode\<close> attribute a confidence that is at least
  the one before; where one of the two attributes is truthy it is the old confidence
  times 1.2, capped at 1.
\<close>

theorem calculateEntityConfidence_bounded_monotone:
  assumes "\<forall>e \<in> set entities. 0 \<le> confidence e \<and> confidence e \<le> 1"
  shows "length (calculateEntityConfidence entities) = length entities
    \<and> (\<forall>i < length entities.
          confidence (calculateEntityConfidence entities ! i) \<le> 1
          \<and> (type (entities ! i) = product
               \<and> (attributes (entities ! i) ''category'' \<noteq> None
                    \<or> attributes (entities ! i) ''hsCode'' \<noteq> None)
              \<longrightarrow> confidence (entities ! i) \<le> confidence (calculateEntityConfidence entities ! i))
          \<and> (type (entities ! i) = product
               \<and> (truthy (attr (attributes (entities ! i)) ''category'')
                    \<or> truthy (attr (attributes (entities ! i)) ''hsCode''))
              \<longrightarrow> confidence (calculateEntityConfidence entities ! i)
                    = min (confidence (entities ! i) * 1.2) 1))"
proof (intro conjI allI impI)
  show "length (calculateEntityConfidence entities) = length entities"
    by (simp add: calculateEntityConfidence_def)
next
  fix i assume "i < length entities"
  then show "confidence (calculateEntityConfidence entities ! i) \<le> 1"
    by (simp add: calculateEntityConfidence_def adjust_confidence_le_1)
next
  fix i assume i: "i < length entities"
  then have "entities ! i \<in> set entities" by simp
  with assms have "0 \<le> confidence (entities ! i)" "confidence (entities ! i) \<le> 1" by auto
  then show "confidence (entities ! i) \<le> confidence (calculateEntityConfidence entities ! i)"
    using i by (simp add: calculateEntityConfidence_def adjust_confidence_ge)
next
  fix i
  assume i: "i < length entities"
    and p: "type (entities ! i) = product
               \<and> (truthy (attr (attributes (entities ! i)) ''category'')
                    \<or> truthy (attr (attributes (entities ! i)) ''hsCode''))"
  then show "confidence (calculateEntityConfidence entities ! i)
                    = min (confidence (entities ! i) * 1.2) 1"
    by (auto simp: calculateEntityConfidence_def adjust_confidence_def Let_def)
qed

theorem calculateEntityConfidence_bounded_monotone_witness:
  "0 \<le> confidence (laptop_entity\<lparr>attributes := [''category'' \<mapsto> Str ''Electronics'']\<rparr>)
   \<and> confidence (laptop_entity\<lparr>attributes := [''category'' \<mapsto> Str ''Electronics'']\<rparr>) \<le> 1
   \<and> type (laptop_entity\<lparr>attributes := [''category'' \<mapsto> Str ''Electronics'']\<rparr>) = product
   \<and> confidence (calculateEntityConfidence
         [laptop_entity\<lparr>attributes := [''category'' \<mapsto> Str ''Electronics'']\<rparr>] ! 0) \<le> 1
   \<and> confidence (laptop_entity\<lparr>attributes := [''category'' \<mapsto> Str ''Electronics'']\<rparr>)
       \<le> confidence (calculateEntityConfidence
            [laptop_entity\<lparr>attributes := [''category'' \<mapsto> Str ''Electronics'']\<rparr>] ! 0)
   \<and> confidence (calculateEntityConfidence
         [laptop_entity\<lparr>attributes := [''category'' \<mapsto> Str ''Electronics'']\<rparr>] ! 0) = 0.72"
proof -
  let ?e = "laptop_entity\<lparr>attributes := [''category'' \<mapsto> Str ''Electronics'']\<rparr>"
  have h: "\<forall>e \<in> set [?e]. 0 \<le> confidence e \<and> confidence e \<le> 1"
    by (simp add: laptop_entity_def)
  have t: "type ([?e] ! 0) = product" "attributes ([?e] ! 0) ''category'' \<noteq> None"
    "truthy (attr (attributes ([?e] ! 0)) ''category'')"
    by (simp_all add: laptop_entity_def attr_def)
  have l: "(0::nat) < length [?e]" by simp
  from calculateEntityConfidence_bounded_monotone [OF h] l t
  have "confidence (calculateEntityConfidence [?e] ! 0) \<le> 1"
    and "confidence ([?e] ! 0) \<le> confidence (calculateEntityConfidence [?e] ! 0)"
    and "confidence (calculateEntityConfidence [?e] ! 0) = min (confidence ([?e] ! 0) * 1.2) 1"
    by blast+
  then show ?thesis
    using h by (simp add: laptop_entity_def)
qed

lemma weight_of_eq: "weight_of t = typeWeights t"
  by (cases t) (simp_all add: weight_of_def)

lemma typeWeights_pos: "0 < typeWeights t"
  by (cases t) simp_all

text \<open>The state of the loop after the entities \<open>es\<close>.\<close>

lemma foldl_weigh:
  "foldl weigh (ws, tw) es =
     (ws + (\<Sum>e\<leftarrow>es. confidence e * typeWeights (type e)),
      tw + (\<Sum>e\<leftarrow>es. typeWeights (type e)))"
  by (induction es arbitrary: ws tw) (simp_all add: weigh_def weight_of_eq Let_def algebra_simps)

lemma sum_weights_pos: "es \<noteq> [] \<Longrightarrow> 0 < (\<Sum>e\<leftarrow>es. typeWeights (type e))"
proof (induction es)
  case Nil
  then show ?case by simp
next
  case (Cons a es)
  have "0 \<le> (\<Sum>e\<leftarrow>es. typeWeights (type e))"
    by (rule sum_list_nonneg) (auto simp: typeWeights_pos less_imp_le)
  with typeWeights_pos [of "type a"] show ?case by simp
qed

text \<open>
  C7. \<open>calculateOverallConfidence\<close> is 0 on the empty list and otherwise the mean of the
  confidences weighted by \<open>typeWeights\<close>, whose values are ordered: business above
  product and service (equal), these above location, location above contact, contact
  above person.
\<close>

theorem calculateOverallConfidence_weighted_mean:
  "calculateOverallConfidence [] = 0
   \<and> (entities \<noteq> [] \<longrightarrow>
        calculateOverallConfidence entities =
          (\<Sum>e\<leftarrow>entities. confidence e * typeWeights (type e))
            / (\<Sum>e\<leftarrow>entities. typeWeights (type e)))
   \<and> typeWeights business > typeWeights product
   \<and> typeWeights product = typeWeights service
   \<and> typeWeights service > typeWeights location
   \<and> typeWeights location > typeWeights contact
   \<and> typeWeights contact > typeWeights person"
proof (intro conjI impI)
  show "calculateOverallConfidence [] = 0"
    by (simp add: calculateOverallConfidence_def)
next
  assume ne: "entities \<noteq> []"
  then show "calculateOverallConfidence entities =
          (\<Sum>e\<leftarrow>entities. confidence e * typeWeights (type e))
            / (\<Sum>e\<leftarrow>entities. typeWeights (type e))"
    using sum_weights_pos [OF ne]
    by (simp add: calculateOverallConfidence_def foldl_weigh)
qed simp_all

theorem calculateOverallConfidence_weighted_mean_witness:
  "[acme_model_based, laptop_entity] \<noteq> []
   \<and> calculateOverallConfidence [acme_model_based, laptop_entity]
       = (0.9 * 1.0 + 0.6 * 0.8) / (1.0 + 0.8)"
proof -
  have ne: "[acme_model_based, laptop_entity] \<noteq> []" by simp
  from calculateOverallConfidence_weighted_mean [of "[acme_model_based, laptop_entity]"] ne
  have "calculateOverallConfidence [acme_model_based, laptop_entity] =
      (\<Sum>e\<leftarrow>[acme_model_based, laptop_entity]. confidence e * typeWeights (type e))
        / (\<Sum>e\<leftarrow>[acme_model_based, laptop_entity]. typeWeights (type e))"
    by blast
  then show ?thesis
    by (simp add: acme_model_based_def laptop_entity_def)
qed

section \<open>Properties of the Model-Based Extractor\<close>

lemma jsonMatch_zero_confidence_text:
  "jsonMatch zero_confidence_text = Some (drop 8 zero_confidence_text)"
  by (simp add: jsonMatch_def zero_confidence_text_def)

lemma jsonMatch_laptop_classification_text:
  "jsonMatch laptop_classification_text = Some laptop_classification_text"
  by (simp add: jsonMatch_def laptop_classification_text_def)

lemma sample_JSON_parse_zero:
  "sample_JSON_parse (drop 8 zero_confidence_text) = Some zero_confidence_json"
  by (simp add: sample_JSON_parse_def)

lemma sample_JSON_parse_laptop:
  "sample_JSON_parse laptop_classification_text = Some laptop_classification_json"
proof -
  have "drop 8 zero_confidence_text \<noteq> laptop_classification_text"
    by (simp add: zero_confidence_text_def laptop_classification_text_def)
  then show ?thesis by (simp add: sample_JSON_parse_def)
qed

text \<open>
  What \<open>entity.confidence || 0.5\<close> gives: the score of the row when it is truthy, and 0.5
  when it is absent, \<open>null\<close>, \<open>false\<close>, the empty string or the number 0.
\<close>

lemma raw_confidence_to_raw:
  "raw_confidence (to_raw t row) =
     (if truthy (read_prop row ''confidence'') then read_prop row ''confidence'' else Num 0.5)"
  by (simp add: to_raw_def js_or_def)

text \<open>
  C8 at a row whose score is 0. The model answers with prose and one business entity of
  confidence 0; the entity \<open>parseAIResponseToEntities\<close> returns has confidence 0.5.
\<close>

theorem parseAIResponseToEntities_zero_confidence:
  "read_prop zero_confidence_json ''entities''
     = Arr [Obj [(''type'', Str ''business''), (''name'', Str ''Acme Exports''),
                 (''confidence'', Num 0)]]
   \<and> map raw_name (parseAIResponseToEntities model_service zero_confidence_text [business])
       = [Str ''Acme Exports'']
   \<and> map raw_confidence (parseAIResponseToEntities model_service zero_confidence_text [business])
       = [Num 0.5]"
  by (simp add: parseAIResponseToEntities_def jsonMatch_zero_confidence_text
      sample_JSON_parse_zero model_service_def zero_confidence_json_def get_prop_def
      includes_type_def to_raw_def js_or_def)

section \<open>Properties of the Product Classifier\<close>

text \<open>
  \<open>classifyEntities\<close> returns the entity objects it was given: whatever the classifier
  answers, their confidences are the ones they came with.
\<close>

lemma classifyEntities_same_list:
  "classifyEntities svc hs st = Inr (hs', st') \<Longrightarrow> hs' = hs"
  by (auto simp: classifyEntities_def Let_def split: if_splits sum.splits prod.splits)

lemma alloc_fields:
  "map type (fst (alloc a es st)) = map type es
   \<and> map name (fst (alloc a es st)) = map name es
   \<and> map confidence (fst (alloc a es st)) = map confidence es"
  by (induction es arbitrary: a st) (simp_all add: case_prod_beta)

lemma load_fields:
  "type (load st h) = type h" "name (load st h) = name h" "confidence (load st h) = confidence h"
  by (simp_all add: load_def)

lemma classify_stage_fields:
  assumes "classify_stage svc es = Inr es'"
  shows "map type es' = map type es \<and> map name es' = map name es
    \<and> map confidence es' = map confidence es"
proof -
  obtain hs st where a: "alloc 0 es (\<lambda>a. Map.empty) = (hs, st)"
    by (cases "alloc 0 es (\<lambda>a. Map.empty)")
  with assms obtain hs' st' where c: "classifyEntities svc hs st = Inr (hs', st')"
    and e: "es' = map (load st') hs'"
    by (auto simp: classify_stage_def split: sum.splits prod.splits)
  have "hs' = hs" using c by (rule classifyEntities_same_list)
  moreover have "map type hs = map type es \<and> map name hs = map name es
      \<and> map confidence hs = map confidence es"
    using alloc_fields [of 0 es "\<lambda>a. Map.empty"] a by simp
  ultimately show ?thesis
    unfolding e by (simp add: load_fields comp_def)
qed

text \<open>The classifier catches every exception: the stage always hands a list on.\<close>

lemma parseProductClassificationResponse_total:
  "\<exists>r. parseProductClassificationResponse svc response hs st = Inr r"
  by (auto simp: parseProductClassificationResponse_def
      split: option.splits sum.splits jsval.splits prod.splits)

lemma classify_stage_total: "\<exists>es'. classify_stage svc es = Inr es'"
proof -
  obtain hs st where a: "alloc 0 es (\<lambda>a. Map.empty) = (hs, st)"
    by (cases "alloc 0 es (\<lambda>a. Map.empty)")
  have "\<exists>r. classifyProductEntities svc ps st = Inr r" for ps
    using parseProductClassificationResponse_total
    by (simp add: classifyProductEntities_def split: sum.splits)
  then obtain cs st' where
    "classifyProductEntities svc (filter (\<lambda>entity. type entity = product) hs) st = Inr (cs, st')"
    by fastforce
  then have "\<exists>r. classifyEntities svc hs st = Inr r"
    by (simp add: classifyEntities_def Let_def)
  with a show ?thesis
    by (auto simp: classify_stage_def split: sum.splits prod.splits)
qed

text \<open>
  C3 at one product. The classifier's answer for ``Laptop'' carries a category, a
  subcategory, an HS code and the confidence 1. \<open>parseProductClassificationResponse\<close>
  returns a clone of confidence (0.6 + 1) / 2 = 0.8; the entity of the list that
  \<open>classifyEntities\<close> hands on has the three attributes, and still the confidence 0.6.
\<close>

theorem classifyEntities_keeps_original_confidence:
  "map_sum id (map confidence \<circ> fst)
     (parseProductClassificationResponse model_service laptop_classification_text
        (fst (alloc 0 [laptop_entity] (\<lambda>a. Map.empty)))
        (snd (alloc 0 [laptop_entity] (\<lambda>a. Map.empty)))) = Inr [0.8]
   \<and> classify_stage model_service [laptop_entity]
       = Inr [laptop_entity\<lparr>attributes :=
                [''category'' \<mapsto> Str ''Electronics'', ''subcategory'' \<mapsto> Str ''Computers'',
                 ''hsCode'' \<mapsto> Str ''847130'']\<rparr>]
   \<and> map_sum id (map confidence) (classify_stage model_service [laptop_entity]) = Inr [0.6]"
proof -
  have 1: "map_sum id (map confidence \<circ> fst)
     (parseProductClassificationResponse model_service laptop_classification_text
        (fst (alloc 0 [laptop_entity] (\<lambda>a. Map.empty)))
        (snd (alloc 0 [laptop_entity] (\<lambda>a. Map.empty)))) = Inr [0.8]"
    by (simp add: parseProductClassificationResponse_def jsonMatch_laptop_classification_text
        sample_JSON_parse_laptop model_service_def laptop_classification_json_def get_prop_def
        clone_entities_def apply_classification_def laptop_entity_def toLowerCase_def
        toLowerCase_char_def set_attr_def Let_def)
  have 2: "classify_stage model_service [laptop_entity]
       = Inr [laptop_entity\<lparr>attributes :=
                [''category'' \<mapsto> Str ''Electronics'', ''subcategory'' \<mapsto> Str ''Computers'',
                 ''hsCode'' \<mapsto> Str ''847130'']\<rparr>]"
    by (simp add: classify_stage_def classifyEntities_def classifyProductEntities_def
        callAIModel_def parseProductClassificationResponse_def
        jsonMatch_laptop_classification_text sample_JSON_parse_laptop model_service_def
        laptop_classification_json_def get_prop_def clone_entities_def
        apply_classification_def laptop_entity_def toLowerCase_def toLowerCase_char_def
        set_attr_def Let_def copy_classification_def load_def attr_def)
      (auto simp: fun_eq_iff)
  have 3: "map_sum id (map confidence) (classify_stage model_service [laptop_entity]) = Inr [0.6]"
    unfolding 2 by (simp add: laptop_entity_def)
  from 1 2 3 show ?thesis by blast
qed

section \<open>Properties of \<open>analyzeContent\<close>\<close>

lemmas pipeline_eval =
  analyzeContent_def extractEntitiesWithNLP_def nlp_type_def extractEntitiesWithAI_def
  callAIModel_def parseAIResponseToEntities_def jsonMatch_def get_prop_def typed_entities_def
  unwritable_product_def is_primitive_def raw_key_def is_Str_def asAnalyzedEntity_def
  js_ToNumber_def own_properties_def as_context_def includes_type_def to_raw_def js_or_def
  mergeEntities_def merge_step_def classify_stage_def classifyEntities_def
  classifyProductEntities_def copy_classification_def set_attr_def load_def
  calculateEntityConfidence_def adjust_confidence_def calculateOverallConfidence_def
  weigh_def weight_of_def attr_def Let_def

lemma jsonMatch_negative_score_text: "jsonMatch negative_score_text = Some negative_score_text"
  by (simp add: jsonMatch_def negative_score_text_def)

lemma jsonMatch_nameless_row_text: "jsonMatch nameless_row_text = Some nameless_row_text"
  by (simp add: jsonMatch_def nameless_row_text_def)

text \<open>
  When the service is ready, \<open>analyzeContent\<close> raises exactly when an extracted entity
  has a name that is no string or is an unwritable product.
\<close>

lemma analyzeContent_raises_iff:
  assumes "ready svc"
  shows "analyzeContent svc request = Inl ContentAnalysisFailed \<longleftrightarrow>
     (\<exists>r \<in> set (extractEntitiesWithNLP svc (content request)
                    @ extractEntitiesWithAI svc (content request) (entityTypes request)).
        \<not> is_Str (raw_name r))
     \<or> unwritable_product
          (extractEntitiesWithNLP svc (content request)
             @ extractEntitiesWithAI svc (content request) (entityTypes request))"
proof -
  have "classify_stage svc es \<noteq> Inl ContentAnalysisFailed" for es
    using classify_stage_total [of svc es] by auto
  then show ?thesis
    using assms
    by (auto simp: analyzeContent_def typed_entities_def Let_def
        split: sum.splits option.splits prod.splits)
qed

text \<open>
  C2 at a model score below 0. The request asks for business entities; the recognizer
  reports nothing and the model reports ``Acme'' with a confidence of -0.5. The response
  holds the entity with the confidence -0.5 times 1.08 (the factor of a business name of
  four characters), which the cap at 1 leaves as it is.
\<close>

theorem analyzeContent_returns_negative_confidence:
  "read_prop negative_score_json ''entities''
     = Arr [Obj [(''type'', Str ''business''), (''name'', Str ''Acme''),
                 (''confidence'', Num (-0.5))]]
   \<and> map_sum id (map name \<circ> resp_entities)
        (analyzeContent negative_score_service acme_request) = Inr [''Acme'']
   \<and> map_sum id (map confidence \<circ> resp_entities)
        (analyzeContent negative_score_service acme_request) = Inr [-0.54]
   \<and> map_sum id resp_confidence
        (analyzeContent negative_score_service acme_request) = Inr (-0.54)"
proof -
  have p: "parseAIResponseToEntities negative_score_service negative_score_text [business]
      = [to_raw business (Obj [(''type'', Str ''business''), (''name'', Str ''Acme''),
                              (''confidence'', Num (-0.5))])]"
    by (simp add: parseAIResponseToEntities_def jsonMatch_negative_score_text
        negative_score_service_def negative_score_json_def get_prop_def includes_type_def)
  have x: "extractEntitiesWithAI negative_score_service (content acme_request)
      (entityTypes acme_request)
      = [to_raw business (Obj [(''type'', Str ''business''), (''name'', Str ''Acme''),
                              (''confidence'', Num (-0.5))])]"
    unfolding p [symmetric]
    by (simp add: extractEntitiesWithAI_def callAIModel_def acme_request_def
        negative_score_service_def)
  have n: "extractEntitiesWithNLP negative_score_service (content acme_request) = []"
    by (simp add: extractEntitiesWithNLP_def negative_score_service_def get_prop_def)
  have r: "ready negative_score_service"
    by (simp add: negative_score_service_def)
  have a: "analyzeContent negative_score_service acme_request =
      Inr \<lparr>resp_entities =
             [\<lparr>type = business, name = ''Acme'', attributes = Map.empty,
               rawText = Str ''Acme'', confidence = - 0.54,
               contexts = [\<lparr>ctx_text = Str ''Acme'', ctx_section = None, ctx_page = None,
                            importance = 0.8\<rparr>]\<rparr>],
           summary = None, resp_confidence = - 0.54, processingTime = 5\<rparr>"
    unfolding analyzeContent_def x n
    by (simp add: r negative_score_service_def typed_entities_def unwritable_product_def
        is_Str_def asAnalyzedEntity_def js_ToNumber_def own_properties_def as_context_def
        to_raw_def js_or_def mergeEntities_def merge_step_def classify_stage_def
        classifyEntities_def load_def calculateEntityConfidence_def adjust_confidence_def
        calculateOverallConfidence_def weigh_def weight_of_def Let_def)
  show ?thesis
    unfolding a by (simp add: negative_score_json_def)
qed

subsection \<open>The pipeline on a malformed model response\<close>

text \<open>The exits of \<open>parseAIResponseToEntities\<close> on a text it cannot parse.\<close>

lemma parseAIResponseToEntities_no_json:
  "jsonMatch response = None \<Longrightarrow> parseAIResponseToEntities svc response ts = []"
  by (simp add: parseAIResponseToEntities_def)

lemma parseAIResponseToEntities_unparseable:
  "jsonMatch response = Some jsonText \<Longrightarrow> JSON_parse svc jsonText = None
     \<Longrightarrow> parseAIResponseToEntities svc response ts = []"
  by (simp add: parseAIResponseToEntities_def)

text \<open>
  C9 at two inputs.

  The model reports a business and leaves out its name. The text is valid JSON with an
  \<open>entities\<close> array, so \<open>parseAIResponseToEntities\<close> returns an entity, whose name is
  \<open>undefined\<close>; \<open>mergeEntities\<close> throws on it and \<open>analyzeContent\<close> raises.

  The model's answer has no JSON object and the recognizer reports ``laptop'' in a row
  that has no \<open>utterance\<close>. The model-based extractor returns the empty list, the
  rule-based one an entity whose name is \<open>undefined\<close>, and \<open>analyzeContent\<close> raises.
\<close>

theorem analyzeContent_raises_on_nameless_entity:
  "read_prop nameless_row_json ''entities''
     = Arr [Obj [(''type'', Str ''business''), (''confidence'', Num 0.9)]]
   \<and> map raw_name (parseAIResponseToEntities nameless_row_service nameless_row_text [business])
       = [Undefined]
   \<and> analyzeContent nameless_row_service acme_request = Inl ContentAnalysisFailed
   \<and> jsonMatch ''I could not find any entity.'' = None
   \<and> extractEntitiesWithAI recognizer_row_service (content business_only_request)
        (entityTypes business_only_request) = []
   \<and> map raw_name
        (extractEntitiesWithNLP recognizer_row_service (content business_only_request))
       = [Undefined]
   \<and> analyzeContent recognizer_row_service business_only_request
       = Inl ContentAnalysisFailed"
proof -
  have p: "map raw_name
      (parseAIResponseToEntities nameless_row_service nameless_row_text [business])
      = [Undefined]"
    by (simp add: parseAIResponseToEntities_def jsonMatch_nameless_row_text
        nameless_row_service_def nameless_row_json_def get_prop_def includes_type_def
        to_raw_def)
  have x: "map raw_name (extractEntitiesWithAI nameless_row_service (content acme_request)
      (entityTypes acme_request)) = [Undefined]"
    unfolding p [symmetric]
    by (simp add: extractEntitiesWithAI_def callAIModel_def acme_request_def
        nameless_row_service_def)
  have "\<exists>r \<in> set (extractEntitiesWithAI nameless_row_service (content acme_request)
      (entityTypes acme_request)). \<not> is_Str (raw_name r)"
    using x by (auto simp: is_Str_def)
  moreover have "ready nameless_row_service"
    by (simp add: nameless_row_service_def)
  ultimately have a: "analyzeContent nameless_row_service acme_request
      = Inl ContentAnalysisFailed"
    by (auto simp: analyzeContent_raises_iff)
  have j: "jsonMatch ''I could not find any entity.'' = None"
    by (simp add: jsonMatch_def)
  have y: "extractEntitiesWithAI recognizer_row_service (content business_only_request)
      (entityTypes business_only_request) = []"
    by (simp add: extractEntitiesWithAI_def callAIModel_def recognizer_row_service_def
        parseAIResponseToEntities_def j)
  have n: "map raw_name
      (extractEntitiesWithNLP recognizer_row_service (content business_only_request))
      = [Undefined]"
    by (simp add: extractEntitiesWithNLP_def recognizer_row_service_def get_prop_def
        nlp_type_def)
  have "\<exists>r \<in> set (extractEntitiesWithNLP recognizer_row_service
      (content business_only_request)). \<not> is_Str (raw_name r)"
    using n by (auto simp: is_Str_def)
  moreover have "ready recognizer_row_service"
    by (simp add: recognizer_row_service_def)
  ultimately have b: "analyzeContent recognizer_row_service business_only_request
      = Inl ContentAnalysisFailed"
    by (auto simp: analyzeContent_raises_iff)
  from p a j y n b show ?thesis
    by (simp add: nameless_row_json_def)
qed

subsection \<open>The options of a request\<close>

text \<open>
  C10. \<open>analyzeContent\<close> gives the same result whatever the \<open>options\<close> of the request
  are. So a threshold of 0.9 and a cap of 0 entities leave the one entity of confidence
  0.6 in the response.
\<close>

theorem analyzeContent_ignores_options:
  "analyzeContent svc (request\<lparr>options := opts\<rparr>) = analyzeContent svc request
   \<and> map_sum id (map confidence \<circ> resp_entities)
        (analyzeContent rule_based_only_service
           (business_only_request\<lparr>options :=
              Some \<lparr>confidenceThreshold = Some 0.9, maxEntities = Some 0,
                    languageModel = None, extractStructured = None\<rparr>\<rparr>)) = Inr [0.6]"
  by (simp add: pipeline_eval rule_based_only_service_def business_only_request_def)

end
